theory Spec2Isabelle
  imports Complex_Main
begin

section \<open>Phone-line contracts: month-to-month, term and prepaid billing\<close>

text \<open>
  A shallow embedding of \<^verbatim>\<open>contract.py\<close>: the abstract class \<^verbatim>\<open>Contract\<close> and its three
  subclasses \<^verbatim>\<open>MTMContract\<close>, \<^verbatim>\<open>TermContract\<close> and \<^verbatim>\<open>PrepaidContract\<close>.

  Conventions of the model.
  \<^item> Amounts of money are Python floats in the source and "decimal" amounts in the
    specification. They are modelled as exact rationals: binary rounding is not modelled.
  \<^item> A contract holds a reference to the bill of the current month; the bill object itself
    belongs to the caller. Bills therefore live in a store, and a contract holds a
    reference into it. Every reference denotes a bill object, as in Python.
  \<^item> A method returns its outcome (the raised exception or the returned value) together
    with the contract and the store as they are when the method is left, so that what a
    method has already mutated before it raises stays visible.
\<close>

subsection \<open>Dates, calls and bills\<close>

text \<open>The part of \<^verbatim>\<open>datetime.date\<close> the contracts read.\<close>

record date =
  year :: int
  month :: int
  day :: int

text \<open>
  Modelled from the spec: the call record of \<^verbatim>\<open>call.py\<close>, which is not part of the
  sources at hand. It exposes the duration of a call in whole seconds.
\<close>

record Call =
  duration :: int

text \<open>
  Modelled from the spec: the class \<^verbatim>\<open>Bill\<close> of \<^verbatim>\<open>bill.py\<close>, which is not part of the
  sources at hand. A bill accumulates a fixed cost, billed minutes and free minutes,
  records a per-minute rate tagged by the plan label, and reports as its cost the fixed
  cost plus the billed minutes times the rate. A new bill starts empty. The field
  \<^verbatim>\<open>free_min\<close> is read by \<^verbatim>\<open>TermContract.bill_call\<close>.
\<close>

record Bill =
  billed_min :: int
  free_min :: int
  min_rate :: rat
  fixed_cost :: rat
  label :: string

definition Bill_init :: Bill where
  "Bill_init = \<lparr>billed_min = 0, free_min = 0, min_rate = 0, fixed_cost = 0, label = []\<rparr>"

definition set_rates :: "Bill \<Rightarrow> string \<Rightarrow> rat \<Rightarrow> Bill" where
  "set_rates b contract_type min_cost = b\<lparr>label := contract_type, min_rate := min_cost\<rparr>"

definition add_fixed_cost :: "Bill \<Rightarrow> rat \<Rightarrow> Bill" where
  "add_fixed_cost b cost = b\<lparr>fixed_cost := fixed_cost b + cost\<rparr>"

definition add_billed_minutes :: "Bill \<Rightarrow> int \<Rightarrow> Bill" where
  "add_billed_minutes b minutes = b\<lparr>billed_min := billed_min b + minutes\<rparr>"

definition add_free_minutes :: "Bill \<Rightarrow> int \<Rightarrow> Bill" where
  "add_free_minutes b minutes = b\<lparr>free_min := free_min b + minutes\<rparr>"

definition get_cost :: "Bill \<Rightarrow> rat" where
  "get_cost b = fixed_cost b + of_int (billed_min b) * min_rate b"

subsection \<open>The store of bills and the outcome of a method\<close>

type_synonym ref = nat

type_synonym store = "ref \<Rightarrow> Bill"

datatype error = AttributeError | NotImplementedError

subsection \<open>Constants of the module\<close>

definition MTM_MONTHLY_FEE :: rat where
  "MTM_MONTHLY_FEE = 50"

definition TERM_MONTHLY_FEE :: rat where
  "TERM_MONTHLY_FEE = 20"

definition TERM_DEPOSIT :: rat where
  "TERM_DEPOSIT = 300"

definition TERM_MINS :: int where
  "TERM_MINS = 100"

definition MTM_MINS_COST :: rat where
  "MTM_MINS_COST = 5 / 100"

definition TERM_MINS_COST :: rat where
  "TERM_MINS_COST = 1 / 10"

definition PREPAID_MINS_COST :: rat where
  "PREPAID_MINS_COST = 25 / 1000"

subsection \<open>The class Contract\<close>

text \<open>
  The fields \<^verbatim>\<open>start\<close> and \<^verbatim>\<open>bill\<close>. Both can be \<^verbatim>\<open>None\<close>: \<^verbatim>\<open>bill\<close> until the first
  month, \<^verbatim>\<open>start\<close> once the contract is cancelled. The subclasses extend the record, and
  the methods of the base class work on every extension, as inherited methods do.
\<close>

record Contract =
  start :: "date option"
  bill :: "ref option"

definition Contract_init :: "date \<Rightarrow> Contract" where
  "Contract_init start_date = \<lparr>start = Some start_date, bill = None\<rparr>"

definition Contract_new_month ::
  "'a Contract_scheme \<Rightarrow> int \<Rightarrow> int \<Rightarrow> ref \<Rightarrow> store \<Rightarrow> (error + unit) \<times> 'a Contract_scheme \<times> store" where
  "Contract_new_month self m y b h = (Inl NotImplementedError, self, h)"

text \<open>
  \<^verbatim>\<open>self.bill.add_billed_minutes(ceil(call.duration / 60.0))\<close>: the attribute lookup on
  \<^verbatim>\<open>self.bill\<close> comes first and raises when no bill is set.
\<close>

definition Contract_bill_call ::
  "'a Contract_scheme \<Rightarrow> Call \<Rightarrow> store \<Rightarrow> (error + unit) \<times> 'a Contract_scheme \<times> store" where
  "Contract_bill_call self call h =
     (case bill self of
        None \<Rightarrow> (Inl AttributeError, self, h)
      | Some b \<Rightarrow>
          (Inr (), self,
           h(b := add_billed_minutes (h b) \<lceil>rat_of_int (duration call) / 60\<rceil>)))"

text \<open>The start date is cleared before the bill is read.\<close>

definition Contract_cancel_contract ::
  "'a Contract_scheme \<Rightarrow> store \<Rightarrow> (error + rat) \<times> 'a Contract_scheme \<times> store" where
  "Contract_cancel_contract self h =
     (let self1 = self\<lparr>start := None\<rparr> in
      case bill self1 of
        None \<Rightarrow> (Inl AttributeError, self1, h)
      | Some b \<Rightarrow> (Inr (get_cost (h b)), self1, h))"

subsection \<open>The class MTMContract\<close>

type_synonym MTMContract = Contract

definition MTMContract_new_month ::
  "MTMContract \<Rightarrow> int \<Rightarrow> int \<Rightarrow> ref \<Rightarrow> store \<Rightarrow> (error + unit) \<times> MTMContract \<times> store" where
  "MTMContract_new_month self m y b h =
     (let self1 = self\<lparr>bill := Some b\<rparr>;
          h1 = h(b := add_fixed_cost (h b) MTM_MONTHLY_FEE);
          h2 = h1(b := set_rates (h1 b) ''MTM'' MTM_MINS_COST)
      in (Inr (), self1, h2))"

subsection \<open>The class TermContract\<close>

record TermContract = Contract +
  end_date :: "date option"
  commit :: bool

definition TermContract_init :: "date \<Rightarrow> date \<Rightarrow> TermContract" where
  "TermContract_init start_date e =
     \<lparr>start = Some start_date, bill = None, end_date = Some e, commit = False\<rparr>"

text \<open>
  Reading \<^verbatim>\<open>self.start.month\<close> raises on a cancelled contract, before anything is
  changed. Reading \<^verbatim>\<open>self.end.month\<close> comes after the deposit may have been added to
  the bill.
\<close>

definition TermContract_new_month ::
  "TermContract \<Rightarrow> int \<Rightarrow> int \<Rightarrow> ref \<Rightarrow> store \<Rightarrow> (error + unit) \<times> TermContract \<times> store" where
  "TermContract_new_month self m y b h =
     (case start self of
        None \<Rightarrow> (Inl AttributeError, self, h)
      | Some s \<Rightarrow>
          (let h1 = (if month s = m \<and> year s = y
                     then h(b := add_fixed_cost (h b) TERM_DEPOSIT) else h)
           in case end_date self of
                None \<Rightarrow> (Inl AttributeError, self, h1)
              | Some e \<Rightarrow>
                  (let self1 = (if m = month e \<and> y = year e
                                then self\<lparr>commit := True\<rparr> else self);
                       self2 = self1\<lparr>bill := Some b\<rparr>;
                       h2 = h1(b := set_rates (h1 b) ''TERM'' TERM_MINS_COST);
                       h3 = h2(b := add_fixed_cost (h2 b) TERM_MONTHLY_FEE)
                   in (Inr (), self2, h3))))"

definition TermContract_cancel_contract ::
  "TermContract \<Rightarrow> store \<Rightarrow> (error + rat) \<times> TermContract \<times> store" where
  "TermContract_cancel_contract self h =
     (case bill self of
        None \<Rightarrow> (Inl AttributeError, self, h)
      | Some b \<Rightarrow>
          (let cost = get_cost (h b);
               cost1 = (if commit self then cost - TERM_DEPOSIT else cost);
               self1 = self\<lparr>start := None\<rparr>;
               self2 = self1\<lparr>end_date := None\<rparr>
           in (Inr cost1, self2, h)))"

definition TermContract_bill_call ::
  "TermContract \<Rightarrow> Call \<Rightarrow> store \<Rightarrow> (error + unit) \<times> TermContract \<times> store" where
  "TermContract_bill_call self call h =
     (case bill self of
        None \<Rightarrow> (Inl AttributeError, self, h)
      | Some b \<Rightarrow>
          (let free = TERM_MINS - free_min (h b);
               call_duration = \<lceil>rat_of_int (duration call) / 60\<rceil>
           in if free > 0
              then (let used_free = min call_duration free;
                        h1 = h(b := add_free_minutes (h b) used_free);
                        h2 = h1(b := add_billed_minutes (h1 b) (call_duration - used_free))
                    in (Inr (), self, h2))
              else (Inr (), self, h(b := add_billed_minutes (h b) call_duration))))"

subsection \<open>The class PrepaidContract\<close>

record PrepaidContract = Contract +
  balance :: rat

definition PrepaidContract_init :: "date \<Rightarrow> rat \<Rightarrow> PrepaidContract" where
  "PrepaidContract_init start_date credit =
     \<lparr>start = Some start_date, bill = None, balance = - 1 * credit\<rparr>"

text \<open>\<^verbatim>\<open>if self.bill:\<close> holds exactly when a bill is set: a bill object is truthy.\<close>

definition PrepaidContract_new_month ::
  "PrepaidContract \<Rightarrow> int \<Rightarrow> int \<Rightarrow> ref \<Rightarrow> store \<Rightarrow> (error + unit) \<times> PrepaidContract \<times> store" where
  "PrepaidContract_new_month self m y b h =
     (let self1 = (case bill self of
                     Some old \<Rightarrow> self\<lparr>balance := get_cost (h old)\<rparr>
                   | None \<Rightarrow> self);
          self2 = (if balance self1 > - 10
                   then self1\<lparr>balance := balance self1 - 25\<rparr> else self1);
          self3 = self2\<lparr>bill := Some b\<rparr>;
          h1 = h(b := add_fixed_cost (h b) (balance self3));
          h2 = h1(b := set_rates (h1 b) ''PREPAID'' PREPAID_MINS_COST)
      in (Inr (), self3, h2))"

definition PrepaidContract_cancel_contract ::
  "PrepaidContract \<Rightarrow> store \<Rightarrow> (error + rat) \<times> PrepaidContract \<times> store" where
  "PrepaidContract_cancel_contract self h =
     (let self1 = self\<lparr>start := None\<rparr> in
      case bill self1 of
        None \<Rightarrow> (Inl AttributeError, self1, h)
      | Some b \<Rightarrow>
          (let cost = get_cost (h b);
               cost1 = (if get_cost (h b) < 0 then 0 else cost);
               self2 = self1\<lparr>balance := 0\<rparr>
           in (Inr cost1, self2, h)))"

subsection \<open>Dynamic dispatch over the three concrete classes\<close>

datatype any_contract = OfMTM MTMContract | OfTerm TermContract | OfPrepaid PrepaidContract

definition lift_result ::
  "('c \<Rightarrow> any_contract) \<Rightarrow> (error + 'r) \<times> 'c \<times> store \<Rightarrow> (error + 'r) \<times> any_contract \<times> store" where
  "lift_result wrap res = (case res of (out, c, h) \<Rightarrow> (out, wrap c, h))"

fun new_month ::
  "any_contract \<Rightarrow> int \<Rightarrow> int \<Rightarrow> ref \<Rightarrow> store \<Rightarrow> (error + unit) \<times> any_contract \<times> store" where
  "new_month (OfMTM c) m y b h = lift_result OfMTM (MTMContract_new_month c m y b h)"
| "new_month (OfTerm c) m y b h = lift_result OfTerm (TermContract_new_month c m y b h)"
| "new_month (OfPrepaid c) m y b h = lift_result OfPrepaid (PrepaidContract_new_month c m y b h)"

fun bill_call ::
  "any_contract \<Rightarrow> Call \<Rightarrow> store \<Rightarrow> (error + unit) \<times> any_contract \<times> store" where
  "bill_call (OfMTM c) call h = lift_result OfMTM (Contract_bill_call c call h)"
| "bill_call (OfTerm c) call h = lift_result OfTerm (TermContract_bill_call c call h)"
| "bill_call (OfPrepaid c) call h = lift_result OfPrepaid (Contract_bill_call c call h)"

fun cancel_contract ::
  "any_contract \<Rightarrow> store \<Rightarrow> (error + rat) \<times> any_contract \<times> store" where
  "cancel_contract (OfMTM c) h = lift_result OfMTM (Contract_cancel_contract c h)"
| "cancel_contract (OfTerm c) h = lift_result OfTerm (TermContract_cancel_contract c h)"
| "cancel_contract (OfPrepaid c) h = lift_result OfPrepaid (PrepaidContract_cancel_contract c h)"

fun current_bill :: "any_contract \<Rightarrow> ref option" where
  "current_bill (OfMTM c) = bill c"
| "current_bill (OfTerm c) = bill c"
| "current_bill (OfPrepaid c) = bill c"

fun committed :: "any_contract \<Rightarrow> bool" where
  "committed (OfTerm c) = commit c"
| "committed _ = False"

subsection \<open>The caller: calls of one month, operations in sequence, months in sequence\<close>

text \<open>
  The caller is not part of the sources; the specification describes how it uses a
  contract: once a month it hands a new bill to \<^verbatim>\<open>new_month\<close>, then it passes each call of
  that month to \<^verbatim>\<open>bill_call\<close>, and it calls \<^verbatim>\<open>cancel_contract\<close> at most once, at the
  end. The definitions of this subsection only compose the methods above.

  \<open>run_all\<close> applies a method to the items of a list in order and stops at the first
  exception, leaving the contract and the store as they are at that point.
\<close>

fun run_all ::
  "('c \<Rightarrow> 'x \<Rightarrow> store \<Rightarrow> (error + unit) \<times> 'c \<times> store) \<Rightarrow> 'c \<Rightarrow> 'x list \<Rightarrow> store
     \<Rightarrow> (error + unit) \<times> 'c \<times> store" where
  "run_all f c [] h = (Inr (), c, h)"
| "run_all f c (x # xs) h =
     (case f c x h of
        (Inl e, c', h') \<Rightarrow> (Inl e, c', h')
      | (Inr _, c', h') \<Rightarrow> run_all f c' xs h')"

text \<open>
  The operations on a term contract, for sequences that mix them freely. The amount
  that \<^verbatim>\<open>cancel_contract\<close> returns plays no role there and is dropped.
\<close>

datatype op = NewMonth int int ref | BillCall Call | CancelContract

fun TermContract_do ::
  "TermContract \<Rightarrow> op \<Rightarrow> store \<Rightarrow> (error + unit) \<times> TermContract \<times> store" where
  "TermContract_do self (NewMonth m y b) h = TermContract_new_month self m y b h"
| "TermContract_do self (BillCall call) h = TermContract_bill_call self call h"
| "TermContract_do self CancelContract h =
     (case TermContract_cancel_contract self h of
        (Inl e, self1, h1) \<Rightarrow> (Inl e, self1, h1)
      | (Inr _, self1, h1) \<Rightarrow> (Inr (), self1, h1))"

text \<open>
  Whether an operation is a \<^verbatim>\<open>new_month\<close> for the month and year of the end date of the
  contract.
\<close>

fun reaches_end :: "TermContract \<Rightarrow> op \<Rightarrow> bool" where
  "reaches_end self (NewMonth m y b) =
     (case end_date self of None \<Rightarrow> False | Some e \<Rightarrow> m = month e \<and> y = year e)"
| "reaches_end self (BillCall call) = False"
| "reaches_end self CancelContract = False"

text \<open>
  The months of a line, as the caller runs them: each month is a month number, a year and
  the calls of that month. For each month the caller creates a new bill (at the next
  unused reference), advances the contract to the month and bills the calls. The result
  is \<open>None\<close> when a method raised.
\<close>

type_synonym cycle = "int \<times> int \<times> Call list"

fun drive ::
  "any_contract \<Rightarrow> store \<Rightarrow> ref \<Rightarrow> cycle list \<Rightarrow> (any_contract \<times> store \<times> ref) option" where
  "drive c h n [] = Some (c, h, n)"
| "drive c h n ((m, y, calls) # rest) =
     (case new_month c m y n (h(n := Bill_init)) of
        (Inl e, c1, h1) \<Rightarrow> None
      | (Inr _, c1, h1) \<Rightarrow>
          (case run_all bill_call c1 calls h1 of
             (Inl e, c2, h2) \<Rightarrow> None
           | (Inr _, c2, h2) \<Rightarrow> drive c2 h2 (Suc n) rest))"

text \<open>
  What the months of a line establish about its current bill, whatever the plan: nothing
  for a prepaid contract, and for the other two a fixed cost of at least the smaller
  monthly fee, a rate and billed minutes that are not negative.
\<close>

fun sound_bill :: "any_contract \<Rightarrow> store \<Rightarrow> bool" where
  "sound_bill (OfPrepaid c) h = True"
| "sound_bill c h =
     (case current_bill c of
        None \<Rightarrow> True
      | Some r \<Rightarrow> 20 \<le> fixed_cost (h r) \<and> 0 \<le> min_rate (h r) \<and> 0 \<le> billed_min (h r))"

text \<open>A store in which every bill is new, for concrete examples.\<close>

definition empty_store :: store where
  "empty_store = (\<lambda>_. Bill_init)"

section \<open>Properties\<close>

subsection \<open>Whole minutes of a call\<close>

lemma ceiling_div_60: "\<lceil>rat_of_int d / 60\<rceil> = - ((- d) div 60)"
proof -
  have "- (rat_of_int d / 60) = rat_of_int (- d) / rat_of_int 60" by simp
  then have "\<lfloor>- (rat_of_int d / 60)\<rfloor> = (- d) div 60"
    by (simp only: floor_divide_of_int_eq)
  then show ?thesis by (simp add: ceiling_def)
qed

lemma ceiling_rat_numeral:
  "\<lceil>(numeral a :: rat) / numeral b\<rceil> = - ((- numeral a) div numeral b)"
proof -
  have "- ((numeral a :: rat) / numeral b) = rat_of_int (- numeral a) / rat_of_int (numeral b)"
    by simp
  then have "\<lfloor>- ((numeral a :: rat) / numeral b)\<rfloor> = (- numeral a) div numeral b"
    by (simp only: floor_divide_of_int_eq)
  then show ?thesis by (simp add: ceiling_def)
qed

lemma ceiling_div_60_nonneg: "0 \<le> d \<Longrightarrow> 0 \<le> \<lceil>rat_of_int d / 60\<rceil>"
  by (simp add: ceiling_div_60)

subsection \<open>Billing with the method of the base class\<close>

lemma Contract_bill_call_Some:
  "bill c = Some b \<Longrightarrow>
     Contract_bill_call c x h =
       (Inr (), c, h(b := add_billed_minutes (h b) \<lceil>rat_of_int (duration x) / 60\<rceil>))"
  by (simp add: Contract_bill_call_def)

lemma add_billed_minutes_twice:
  "add_billed_minutes (add_billed_minutes a m) n = add_billed_minutes a (m + n)"
  by (simp add: add_billed_minutes_def)

lemma Contract_run_all_billed:
  assumes "bill c = Some b"
  shows "run_all Contract_bill_call c cs h =
           (Inr (), c,
            h(b := add_billed_minutes (h b) (\<Sum>x\<leftarrow>cs. \<lceil>rat_of_int (duration x) / 60\<rceil>)))"
proof (induction cs arbitrary: h)
  case Nil
  have "add_billed_minutes (h b) 0 = h b" by (simp add: add_billed_minutes_def)
  then show ?case by simp
next
  case (Cons x xs)
  define h1 where "h1 = h(b := add_billed_minutes (h b) \<lceil>rat_of_int (duration x) / 60\<rceil>)"
  have "run_all Contract_bill_call c (x # xs) h = run_all Contract_bill_call c xs h1"
    by (simp add: Contract_bill_call_Some [OF assms] h1_def)
  also have "\<dots> = (Inr (), c,
      h1(b := add_billed_minutes (h1 b) (\<Sum>x\<leftarrow>xs. \<lceil>rat_of_int (duration x) / 60\<rceil>)))"
    by (rule Cons.IH)
  also have "h1(b := add_billed_minutes (h1 b) (\<Sum>x\<leftarrow>xs. \<lceil>rat_of_int (duration x) / 60\<rceil>)) =
             h(b := add_billed_minutes (h b) (\<Sum>x\<leftarrow>x # xs. \<lceil>rat_of_int (duration x) / 60\<rceil>))"
    by (simp add: h1_def add_billed_minutes_twice)
  finally show ?case .
qed

subsection \<open>Cancelling a term contract\<close>

text \<open>
  Claim C3. On a term contract whose current bill is set, \<^verbatim>\<open>cancel_contract\<close> returns the
  cost of that bill minus the deposit of 300 when \<open>commit\<close> holds and the cost of the bill
  as it is otherwise; in both cases it clears \<open>start\<close> and \<open>end\<close>, and it leaves every other
  field and the store of bills as they were.
\<close>

theorem TermContract_cancel_contract_refund:
  assumes "bill self = Some b"
  shows "TermContract_cancel_contract self h =
           (Inr (if commit self then get_cost (h b) - 300 else get_cost (h b)),
            self\<lparr>start := None, end_date := None\<rparr>, h)"
  using assms by (simp add: TermContract_cancel_contract_def TERM_DEPOSIT_def)

theorem TermContract_cancel_contract_refund_witness:
  "bill \<lparr>start = Some \<lparr>year = 2020, month = 1, day = 15\<rparr>, bill = Some 0,
         end_date = Some \<lparr>year = 2020, month = 6, day = 15\<rparr>, commit = True\<rparr> = Some 0 \<and>
   TermContract_cancel_contract
     \<lparr>start = Some \<lparr>year = 2020, month = 1, day = 15\<rparr>, bill = Some 0,
      end_date = Some \<lparr>year = 2020, month = 6, day = 15\<rparr>, commit = True\<rparr>
     (empty_store(0 := \<lparr>billed_min = 17, free_min = 100, min_rate = 1 / 10,
                        fixed_cost = 320, label = ''TERM''\<rparr>)) =
     (Inr (217 / 10),
      \<lparr>start = None, bill = Some 0, end_date = None, commit = True\<rparr>,
      empty_store(0 := \<lparr>billed_min = 17, free_min = 100, min_rate = 1 / 10,
                        fixed_cost = 320, label = ''TERM''\<rparr>))"
  using TermContract_cancel_contract_refund
    [of "\<lparr>start = Some \<lparr>year = 2020, month = 1, day = 15\<rparr>, bill = Some 0,
          end_date = Some \<lparr>year = 2020, month = 6, day = 15\<rparr>, commit = True\<rparr>" 0
        "empty_store(0 := \<lparr>billed_min = 17, free_min = 100, min_rate = 1 / 10,
                           fixed_cost = 320, label = ''TERM''\<rparr>)"]
  by (simp add: get_cost_def)

subsection \<open>Cancelling a prepaid contract\<close>

text \<open>
  Claim C4. On a prepaid contract whose current bill is set, \<^verbatim>\<open>cancel_contract\<close> returns 0
  when the cost of that bill is negative and exactly that cost otherwise; afterwards
  \<open>balance\<close> is 0 and \<open>start\<close> is cleared, and the store of bills is as it was.
\<close>

theorem PrepaidContract_cancel_contract_clamp:
  assumes "bill self = Some b"
  shows "PrepaidContract_cancel_contract self h =
           (Inr (if get_cost (h b) < 0 then 0 else get_cost (h b)),
            self\<lparr>start := None, balance := 0\<rparr>, h)"
  using assms by (simp add: PrepaidContract_cancel_contract_def)

theorem PrepaidContract_cancel_contract_clamp_witness:
  "bill \<lparr>start = Some \<lparr>year = 2020, month = 1, day = 15\<rparr>, bill = Some 0,
         balance = - 40\<rparr> = Some 0 \<and>
   PrepaidContract_cancel_contract
     \<lparr>start = Some \<lparr>year = 2020, month = 1, day = 15\<rparr>, bill = Some 0, balance = - 40\<rparr>
     (empty_store(0 := \<lparr>billed_min = 80, free_min = 0, min_rate = 25 / 1000,
                        fixed_cost = - 40, label = ''PREPAID''\<rparr>)) =
     (Inr 0,
      \<lparr>start = None, bill = Some 0, balance = 0\<rparr>,
      empty_store(0 := \<lparr>billed_min = 80, free_min = 0, min_rate = 25 / 1000,
                        fixed_cost = - 40, label = ''PREPAID''\<rparr>))"
  using PrepaidContract_cancel_contract_clamp
    [of "\<lparr>start = Some \<lparr>year = 2020, month = 1, day = 15\<rparr>, bill = Some 0,
          balance = - 40\<rparr>" 0
        "empty_store(0 := \<lparr>billed_min = 80, free_min = 0, min_rate = 25 / 1000,
                           fixed_cost = - 40, label = ''PREPAID''\<rparr>)"]
  by (simp add: get_cost_def)

subsection \<open>One month of a month-to-month contract\<close>

text \<open>
  Claim C5. When \<^verbatim>\<open>new_month\<close> of a month-to-month contract is given a new bill and is
  followed by any list of calls, neither raises, each call adds the ceiling of its
  duration over 60 to the billed minutes, and the cost of the bill is 50 plus 0.05 times
  the sum of these minutes.
\<close>

theorem MTMContract_cycle_cost:
  assumes "h b = Bill_init"
  shows "case MTMContract_new_month self m y b h of
           (out, self1, h1) \<Rightarrow>
             out = Inr () \<and>
             (case run_all Contract_bill_call self1 cs h1 of
                (out2, self2, h2) \<Rightarrow>
                  out2 = Inr () \<and>
                  billed_min (h2 b) = (\<Sum>x\<leftarrow>cs. \<lceil>rat_of_int (duration x) / 60\<rceil>) \<and>
                  get_cost (h2 b) =
                    50 + (5 / 100) * of_int (\<Sum>x\<leftarrow>cs. \<lceil>rat_of_int (duration x) / 60\<rceil>))"
proof -
  have "bill (self\<lparr>bill := Some b\<rparr>) = Some b" by simp
  note seq = Contract_run_all_billed [OF this]
  show ?thesis using assms
    by (simp add: MTMContract_new_month_def seq Bill_init_def
        add_fixed_cost_def set_rates_def add_billed_minutes_def get_cost_def
        MTM_MONTHLY_FEE_def MTM_MINS_COST_def)
qed

theorem MTMContract_cycle_cost_witness:
  "empty_store 0 = Bill_init \<and>
   (case MTMContract_new_month (Contract_init \<lparr>year = 2020, month = 1, day = 15\<rparr>) 1 2020 0
           empty_store of
      (out, self1, h1) \<Rightarrow>
        out = Inr () \<and>
        (case run_all Contract_bill_call self1 [\<lparr>duration = 125\<rparr>] h1 of
           (out2, self2, h2) \<Rightarrow>
             out2 = Inr () \<and> billed_min (h2 0) = 3 \<and> get_cost (h2 0) = 5015 / 100))"
  using MTMContract_cycle_cost
    [where h = empty_store and b = 0 and m = 1 and y = 2020
       and self = "Contract_init \<lparr>year = 2020, month = 1, day = 15\<rparr>"
       and cs = "[\<lparr>duration = 125\<rparr>]"]
  by (simp add: empty_store_def ceiling_rat_numeral)

subsection \<open>A new month of a term contract\<close>

text \<open>
  Claim C6. On a term contract that is not cancelled, \<^verbatim>\<open>new_month\<close> adds the deposit of 300
  to the fixed cost of the given bill exactly when the given month and year are those
  of the start date, and always adds the monthly fee of 20. Hence a new bill given for
  the month of the start date costs exactly 320 before any call is billed.
\<close>

theorem TermContract_new_month_charges:
  assumes "start self = Some s" and "end_date self = Some e"
  shows "case TermContract_new_month self m y b h of
           (out, self1, h1) \<Rightarrow>
             out = Inr () \<and> bill self1 = Some b \<and>
             fixed_cost (h1 b) =
               fixed_cost (h b) + (if m = month s \<and> y = year s then 300 else 0) + 20 \<and>
             (h b = Bill_init \<and> m = month s \<and> y = year s \<longrightarrow> get_cost (h1 b) = 320)"
  using assms
  by (simp add: TermContract_new_month_def Let_def add_fixed_cost_def set_rates_def
      get_cost_def Bill_init_def TERM_DEPOSIT_def TERM_MONTHLY_FEE_def TERM_MINS_COST_def)

theorem TermContract_new_month_charges_witness:
  "start (TermContract_init \<lparr>year = 2020, month = 1, day = 15\<rparr>
                            \<lparr>year = 2020, month = 6, day = 15\<rparr>) =
     Some \<lparr>year = 2020, month = 1, day = 15\<rparr> \<and>
   end_date (TermContract_init \<lparr>year = 2020, month = 1, day = 15\<rparr>
                               \<lparr>year = 2020, month = 6, day = 15\<rparr>) =
     Some \<lparr>year = 2020, month = 6, day = 15\<rparr> \<and>
   empty_store 0 = Bill_init \<and>
   (case TermContract_new_month
           (TermContract_init \<lparr>year = 2020, month = 1, day = 15\<rparr>
                              \<lparr>year = 2020, month = 6, day = 15\<rparr>) 1 2020 0 empty_store of
      (out, self1, h1) \<Rightarrow>
        out = Inr () \<and> bill self1 = Some 0 \<and> fixed_cost (h1 0) = 320 \<and>
        get_cost (h1 0) = 320)"
  using TermContract_new_month_charges
    [where self = "TermContract_init \<lparr>year = 2020, month = 1, day = 15\<rparr>
                                     \<lparr>year = 2020, month = 6, day = 15\<rparr>"
       and s = "\<lparr>year = 2020, month = 1, day = 15\<rparr>"
       and e = "\<lparr>year = 2020, month = 6, day = 15\<rparr>"
       and m = 1 and y = 2020 and b = 0 and h = empty_store]
  by (simp add: TermContract_init_def empty_store_def Bill_init_def)

subsection \<open>A new month of a prepaid contract\<close>

text \<open>
  Claim C2. \<^verbatim>\<open>new_month\<close> of a prepaid contract first takes as balance the cost of the
  previous bill when there is one (and keeps the balance of the constructor in the first
  month), then subtracts 25 from it exactly when it is greater than -10, and only then
  adds the resulting balance to the fixed cost of the given bill. Hence the fixed cost of
  a new bill is the carried-over balance minus 25 when that balance is greater than -10,
  and the carried-over balance itself otherwise.
\<close>

theorem PrepaidContract_new_month_recharge:
  "case PrepaidContract_new_month self m y b h of
     (out, self1, h1) \<Rightarrow>
       (let carried = (case bill self of Some old \<Rightarrow> get_cost (h old) | None \<Rightarrow> balance self)
        in out = Inr () \<and> bill self1 = Some b \<and> start self1 = start self \<and>
           balance self1 = (if carried > - 10 then carried - 25 else carried) \<and>
           fixed_cost (h1 b) = fixed_cost (h b) + balance self1 \<and>
           (h b = Bill_init \<longrightarrow> fixed_cost (h1 b) = balance self1))"
  by (simp add: PrepaidContract_new_month_def Let_def add_fixed_cost_def set_rates_def
      Bill_init_def split: option.split)

theorem PrepaidContract_new_month_recharge_witness:
  "(empty_store(0 := \<lparr>billed_min = 1400, free_min = 0, min_rate = 25 / 1000,
                       fixed_cost = - 40, label = ''PREPAID''\<rparr>)) 1 = Bill_init \<and>
   (case PrepaidContract_new_month
           \<lparr>start = Some \<lparr>year = 2020, month = 1, day = 15\<rparr>, bill = Some 0, balance = - 40\<rparr>
           2 2020 1
           (empty_store(0 := \<lparr>billed_min = 1400, free_min = 0, min_rate = 25 / 1000,
                              fixed_cost = - 40, label = ''PREPAID''\<rparr>)) of
      (out, self1, h1) \<Rightarrow>
        out = Inr () \<and> bill self1 = Some 1 \<and> balance self1 = - 30 \<and>
        fixed_cost (h1 1) = - 30)"
  using PrepaidContract_new_month_recharge
    [where self = "\<lparr>start = Some \<lparr>year = 2020, month = 1, day = 15\<rparr>, bill = Some 0,
                    balance = - 40\<rparr>"
       and m = 2 and y = 2020 and b = 1
       and h = "empty_store(0 := \<lparr>billed_min = 1400, free_min = 0, min_rate = 25 / 1000,
                                  fixed_cost = - 40, label = ''PREPAID''\<rparr>)"]
  by (simp add: empty_store_def get_cost_def Let_def PrepaidContract_new_month_def
      add_fixed_cost_def set_rates_def Bill_init_def)

subsection \<open>The free minutes of a term contract\<close>

lemma TermContract_bill_call_Some:
  assumes "bill self = Some b"
  shows "TermContract_bill_call self call h =
           (let call_minutes = \<lceil>rat_of_int (duration call) / 60\<rceil>;
                remaining_free = 100 - free_min (h b);
                used = (if remaining_free > 0 then min call_minutes remaining_free else 0)
            in (Inr (), self,
                h(b := (h b)\<lparr>free_min := free_min (h b) + used,
                              billed_min := billed_min (h b) + (call_minutes - used)\<rparr>)))"
  using assms
  by (simp add: TermContract_bill_call_def Let_def TERM_MINS_def add_free_minutes_def
      add_billed_minutes_def)

lemma sum_list_minutes_nonneg:
  "\<forall>x\<in>set cs. 0 \<le> duration x \<Longrightarrow> 0 \<le> (\<Sum>x\<leftarrow>cs. \<lceil>rat_of_int (duration x) / 60\<rceil>)"
  by (induction cs) (simp_all add: ceiling_div_60_nonneg)

lemma TermContract_run_all_pool:
  assumes "bill self = Some b"
  shows "free_min (h b) \<le> 100 \<Longrightarrow> \<forall>x\<in>set cs. 0 \<le> duration x \<Longrightarrow>
         run_all TermContract_bill_call self cs h =
           (Inr (), self,
            h(b := (h b)\<lparr>free_min :=
                       min 100 (free_min (h b) + (\<Sum>x\<leftarrow>cs. \<lceil>rat_of_int (duration x) / 60\<rceil>)),
                     billed_min := billed_min (h b) +
                       (free_min (h b) + (\<Sum>x\<leftarrow>cs. \<lceil>rat_of_int (duration x) / 60\<rceil>) -
                        min 100 (free_min (h b) +
                                 (\<Sum>x\<leftarrow>cs. \<lceil>rat_of_int (duration x) / 60\<rceil>)))\<rparr>))"
proof (induction cs arbitrary: h)
  case Nil
  then have "min 100 (free_min (h b)) = free_min (h b)" by simp
  then have "(h b)\<lparr>free_min := min 100 (free_min (h b) + 0),
                   billed_min := billed_min (h b) +
                     (free_min (h b) + 0 - min 100 (free_min (h b) + 0))\<rparr> = h b"
    by simp
  then have "h(b := (h b)\<lparr>free_min := min 100 (free_min (h b) + 0),
                   billed_min := billed_min (h b) +
                     (free_min (h b) + 0 - min 100 (free_min (h b) + 0))\<rparr>) = h"
    by (simp only: fun_upd_triv)
  then show ?case by (simp only: run_all.simps list.map sum_list.Nil)
next
  case (Cons x xs)
  define cm where "cm = \<lceil>rat_of_int (duration x) / 60\<rceil>"
  define S where "S = (\<Sum>x\<leftarrow>xs. \<lceil>rat_of_int (duration x) / 60\<rceil>)"
  define used where "used = (if 100 - free_min (h b) > 0 then min cm (100 - free_min (h b)) else 0)"
  define h1 where "h1 = h(b := (h b)\<lparr>free_min := free_min (h b) + used,
                                     billed_min := billed_min (h b) + (cm - used)\<rparr>)"
  have cm: "0 \<le> cm" using Cons.prems(2) by (simp add: cm_def ceiling_div_60_nonneg)
  have S: "0 \<le> S" unfolding S_def using Cons.prems(2) by (intro sum_list_minutes_nonneg) simp
  have step: "TermContract_bill_call self x h = (Inr (), self, h1)"
    by (simp add: TermContract_bill_call_Some [OF assms] Let_def h1_def used_def cm_def)
  have f1: "free_min (h1 b) \<le> 100" using Cons.prems(1) cm by (auto simp: h1_def used_def min_def)
  have rest: "\<forall>x\<in>set xs. 0 \<le> duration x" using Cons.prems(2) by simp
  have total: "(\<Sum>x\<leftarrow>x # xs. \<lceil>rat_of_int (duration x) / 60\<rceil>) = cm + S"
    by (simp add: cm_def S_def)
  have "run_all TermContract_bill_call self (x # xs) h = run_all TermContract_bill_call self xs h1"
    by (simp add: step)
  also have "\<dots> = (Inr (), self,
                h1(b := (h1 b)\<lparr>free_min := min 100 (free_min (h1 b) + S),
                              billed_min := billed_min (h1 b) + (free_min (h1 b) + S - min 100 (free_min (h1 b) + S))\<rparr>))"
    using Cons.IH [of h1, OF f1 rest] unfolding S_def .
  also have "h1(b := (h1 b)\<lparr>free_min := min 100 (free_min (h1 b) + S),
                              billed_min := billed_min (h1 b) + (free_min (h1 b) + S - min 100 (free_min (h1 b) + S))\<rparr>)
           = h(b := (h b)\<lparr>free_min := min 100 (free_min (h b) + (cm + S)),
                              billed_min := billed_min (h b) + (free_min (h b) + (cm + S) - min 100 (free_min (h b) + (cm + S)))\<rparr>)"
  proof -
    have a: "min 100 (free_min (h b) + used + S) = min 100 (free_min (h b) + (cm + S))"
      using Cons.prems(1) cm S by (auto simp: used_def min_def)
    have fb: "free_min (h1 b) = free_min (h b) + used"
      "billed_min (h1 b) = billed_min (h b) + (cm - used)"
      by (simp_all add: h1_def)
    have f: "min 100 (free_min (h1 b) + S) = min 100 (free_min (h b) + (cm + S))"
      using a by (simp add: fb)
    have k: "billed_min (h1 b) + (free_min (h1 b) + S - min 100 (free_min (h b) + (cm + S))) =
             billed_min (h b) + (free_min (h b) + (cm + S) - min 100 (free_min (h b) + (cm + S)))"
      by (simp add: fb)
    show ?thesis unfolding f k by (simp add: h1_def)
  qed
  finally show ?case unfolding total .
qed

text \<open>
  Claim C1. On a term contract whose current bill records \<open>f\<close> free minutes,
  \<^verbatim>\<open>bill_call\<close> takes the ceiling of the duration over 60 as the minutes of the call and
  \<open>100 - f\<close> as the remaining free minutes. When free minutes remain it records the
  smaller of the two as free minutes and the surplus as billed minutes; when none remain
  it records all minutes of the call as billed minutes. Consequently, for the calls of a
  month billed in order on a bill with at most 100 free minutes, the free minutes are
  filled up to 100 first and only the minutes beyond that are billed.
\<close>

theorem TermContract_bill_call_pool:
  assumes "bill self = Some b"
  shows "TermContract_bill_call self call h =
           (let call_minutes = \<lceil>rat_of_int (duration call) / 60\<rceil>;
                remaining_free = 100 - free_min (h b);
                used = (if remaining_free > 0 then min call_minutes remaining_free else 0)
            in (Inr (), self,
                h(b := (h b)\<lparr>free_min := free_min (h b) + used,
                              billed_min := billed_min (h b) + (call_minutes - used)\<rparr>))) \<and>
         (free_min (h b) \<le> 100 \<and> (\<forall>x\<in>set cs. 0 \<le> duration x) \<longrightarrow>
          run_all TermContract_bill_call self cs h =
           (let total = free_min (h b) + (\<Sum>x\<leftarrow>cs. \<lceil>rat_of_int (duration x) / 60\<rceil>)
            in (Inr (), self,
                h(b := (h b)\<lparr>free_min := min 100 total,
                              billed_min := billed_min (h b) + (total - min 100 total)\<rparr>))))"
  unfolding Let_def
  using TermContract_bill_call_Some [OF assms, unfolded Let_def]
    TermContract_run_all_pool [OF assms]
  by blast

theorem TermContract_bill_call_pool_witness:
  "bill \<lparr>start = Some \<lparr>year = 2020, month = 1, day = 15\<rparr>, bill = Some 0,
         end_date = Some \<lparr>year = 2020, month = 6, day = 15\<rparr>, commit = False\<rparr> = Some 0 \<and>
   TermContract_bill_call
     \<lparr>start = Some \<lparr>year = 2020, month = 1, day = 15\<rparr>, bill = Some 0,
      end_date = Some \<lparr>year = 2020, month = 6, day = 15\<rparr>, commit = False\<rparr>
     \<lparr>duration = 4000\<rparr>
     (empty_store(0 := \<lparr>billed_min = 0, free_min = 50, min_rate = 1 / 10,
                        fixed_cost = 320, label = ''TERM''\<rparr>)) =
     (Inr (),
      \<lparr>start = Some \<lparr>year = 2020, month = 1, day = 15\<rparr>, bill = Some 0,
       end_date = Some \<lparr>year = 2020, month = 6, day = 15\<rparr>, commit = False\<rparr>,
      empty_store(0 := \<lparr>billed_min = 17, free_min = 100, min_rate = 1 / 10,
                        fixed_cost = 320, label = ''TERM''\<rparr>)) \<and>
   free_min ((empty_store(0 := \<lparr>billed_min = 0, free_min = 50, min_rate = 1 / 10,
                                fixed_cost = 320, label = ''TERM''\<rparr>)) 0) \<le> 100 \<and>
   0 \<le> duration \<lparr>duration = 4000\<rparr> \<and> 0 \<le> duration \<lparr>duration = 60\<rparr> \<and>
   run_all TermContract_bill_call
     \<lparr>start = Some \<lparr>year = 2020, month = 1, day = 15\<rparr>, bill = Some 0,
      end_date = Some \<lparr>year = 2020, month = 6, day = 15\<rparr>, commit = False\<rparr>
     [\<lparr>duration = 4000\<rparr>, \<lparr>duration = 60\<rparr>]
     (empty_store(0 := \<lparr>billed_min = 0, free_min = 50, min_rate = 1 / 10,
                        fixed_cost = 320, label = ''TERM''\<rparr>)) =
     (Inr (),
      \<lparr>start = Some \<lparr>year = 2020, month = 1, day = 15\<rparr>, bill = Some 0,
       end_date = Some \<lparr>year = 2020, month = 6, day = 15\<rparr>, commit = False\<rparr>,
      empty_store(0 := \<lparr>billed_min = 18, free_min = 100, min_rate = 1 / 10,
                        fixed_cost = 320, label = ''TERM''\<rparr>))"
  using TermContract_bill_call_pool
    [where self = "\<lparr>start = Some \<lparr>year = 2020, month = 1, day = 15\<rparr>, bill = Some 0,
                    end_date = Some \<lparr>year = 2020, month = 6, day = 15\<rparr>, commit = False\<rparr>"
       and b = 0 and call = "\<lparr>duration = 4000\<rparr>"
       and cs = "[\<lparr>duration = 4000\<rparr>, \<lparr>duration = 60\<rparr>]"
       and h = "empty_store(0 := \<lparr>billed_min = 0, free_min = 50, min_rate = 1 / 10,
                                  fixed_cost = 320, label = ''TERM''\<rparr>)"]
  by (simp add: Let_def ceiling_rat_numeral TermContract_bill_call_def TERM_MINS_def
      add_free_minutes_def add_billed_minutes_def)

lemma TermContract_bill_call_free_min:
  assumes "free_min (h r) \<le> 100" and "TermContract_bill_call self call h = (out, self1, h1)"
  shows "free_min (h1 r) \<le> 100"
proof (cases "bill self")
  case None
  with assms show ?thesis by (simp add: TermContract_bill_call_def)
next
  case (Some b)
  show ?thesis
  proof (cases "r = b")
    case True
    with assms Some show ?thesis
      by (auto simp: TermContract_bill_call_Some Let_def min_def split: if_splits)
  next
    case False
    with assms Some show ?thesis
      by (auto simp: TermContract_bill_call_Some Let_def)
  qed
qed

lemma TermContract_run_all_free_min:
  "free_min (h r) \<le> 100 \<Longrightarrow> run_all TermContract_bill_call self cs h = (out, self1, h1) \<Longrightarrow>
     free_min (h1 r) \<le> 100"
proof (induction cs arbitrary: self h)
  case Nil
  then show ?case by simp
next
  case (Cons x xs)
  obtain o2 s2 h2 where step: "TermContract_bill_call self x h = (o2, s2, h2)"
    by (cases "TermContract_bill_call self x h") auto
  have h2: "free_min (h2 r) \<le> 100"
    using TermContract_bill_call_free_min [OF Cons.prems(1) step] .
  show ?case
  proof (cases o2)
    case (Inl e)
    with Cons.prems(2) step h2 show ?thesis by simp
  next
    case (Inr u)
    with Cons.prems(2) step have "run_all TermContract_bill_call s2 xs h2 = (out, self1, h1)"
      by simp
    from Cons.IH [OF h2 this] show ?thesis .
  qed
qed

text \<open>
  Claim C10. On a term contract, a bill with at most 100 free minutes still has at most
  100 free minutes after \<^verbatim>\<open>bill_call\<close>, and so after any list of calls; in particular the
  free minutes of a month never exceed 100 on a bill that starts the month with none.
\<close>

theorem TermContract_free_min_bounded:
  assumes "free_min (h r) \<le> 100"
  shows "(case TermContract_bill_call self call h of (out, self1, h1) \<Rightarrow> free_min (h1 r) \<le> 100) \<and>
         (case run_all TermContract_bill_call self cs h of
            (out, self1, h1) \<Rightarrow> free_min (h1 r) \<le> 100)"
  using assms
  by (auto dest: TermContract_bill_call_free_min TermContract_run_all_free_min)

theorem TermContract_free_min_bounded_witness:
  "free_min ((empty_store(0 := \<lparr>billed_min = 0, free_min = 50, min_rate = 1 / 10,
                                fixed_cost = 320, label = ''TERM''\<rparr>)) 0) \<le> 100 \<and>
   (case TermContract_bill_call
           \<lparr>start = Some \<lparr>year = 2020, month = 1, day = 15\<rparr>, bill = Some 0,
            end_date = Some \<lparr>year = 2020, month = 6, day = 15\<rparr>, commit = False\<rparr>
           \<lparr>duration = 4000\<rparr>
           (empty_store(0 := \<lparr>billed_min = 0, free_min = 50, min_rate = 1 / 10,
                              fixed_cost = 320, label = ''TERM''\<rparr>)) of
      (out, self1, h1) \<Rightarrow> free_min (h1 0) \<le> 100) \<and>
   (case run_all TermContract_bill_call
           \<lparr>start = Some \<lparr>year = 2020, month = 1, day = 15\<rparr>, bill = Some 0,
            end_date = Some \<lparr>year = 2020, month = 6, day = 15\<rparr>, commit = False\<rparr>
           [\<lparr>duration = 4000\<rparr>, \<lparr>duration = 60\<rparr>]
           (empty_store(0 := \<lparr>billed_min = 0, free_min = 50, min_rate = 1 / 10,
                              fixed_cost = 320, label = ''TERM''\<rparr>)) of
      (out, self1, h1) \<Rightarrow> free_min (h1 0) \<le> 100)"
  using TermContract_free_min_bounded
    [where self = "\<lparr>start = Some \<lparr>year = 2020, month = 1, day = 15\<rparr>, bill = Some 0,
                    end_date = Some \<lparr>year = 2020, month = 6, day = 15\<rparr>, commit = False\<rparr>"
       and r = 0 and call = "\<lparr>duration = 4000\<rparr>"
       and cs = "[\<lparr>duration = 4000\<rparr>, \<lparr>duration = 60\<rparr>]"
       and h = "empty_store(0 := \<lparr>billed_min = 0, free_min = 50, min_rate = 1 / 10,
                                  fixed_cost = 320, label = ''TERM''\<rparr>)"]
  by simp

subsection \<open>What billing a call leaves alone\<close>

text \<open>
  Claim C9. For each of the three classes, \<^verbatim>\<open>bill_call\<close> leaves the contract as it is: its
  start date, its reference to the current bill and, where present, its end date, its
  commitment flag and its balance. In the store only the current bill can change, and of
  that bill only the billed and the free minutes: fixed cost, rate and label stay.
\<close>

theorem bill_call_frame:
  "case bill_call c call h of
     (out, c1, h1) \<Rightarrow>
       c1 = c \<and>
       (\<forall>r. Some r \<noteq> current_bill c \<longrightarrow> h1 r = h r) \<and>
       (\<forall>r. fixed_cost (h1 r) = fixed_cost (h r) \<and> min_rate (h1 r) = min_rate (h r) \<and>
            label (h1 r) = label (h r))"
  by (cases c)
    (auto simp: lift_result_def Contract_bill_call_def TermContract_bill_call_def Let_def
      add_billed_minutes_def add_free_minutes_def split: option.splits)

theorem bill_call_frame_witness:
  "case bill_call
          (OfTerm \<lparr>start = Some \<lparr>year = 2020, month = 1, day = 15\<rparr>, bill = Some 0,
                   end_date = Some \<lparr>year = 2020, month = 6, day = 15\<rparr>, commit = False\<rparr>)
          \<lparr>duration = 4000\<rparr>
          (empty_store(0 := \<lparr>billed_min = 0, free_min = 50, min_rate = 1 / 10,
                             fixed_cost = 320, label = ''TERM''\<rparr>)) of
     (out, c1, h1) \<Rightarrow>
       c1 = OfTerm \<lparr>start = Some \<lparr>year = 2020, month = 1, day = 15\<rparr>, bill = Some 0,
                    end_date = Some \<lparr>year = 2020, month = 6, day = 15\<rparr>, commit = False\<rparr> \<and>
       Some 1 \<noteq> current_bill
          (OfTerm \<lparr>start = Some \<lparr>year = 2020, month = 1, day = 15\<rparr>, bill = Some 0,
                   end_date = Some \<lparr>year = 2020, month = 6, day = 15\<rparr>, commit = False\<rparr>) \<and>
       h1 1 = (empty_store(0 := \<lparr>billed_min = 0, free_min = 50, min_rate = 1 / 10,
                                  fixed_cost = 320, label = ''TERM''\<rparr>)) 1 \<and>
       fixed_cost (h1 0) = 320 \<and> min_rate (h1 0) = 1 / 10 \<and> label (h1 0) = ''TERM''"
  using bill_call_frame
    [where c = "OfTerm \<lparr>start = Some \<lparr>year = 2020, month = 1, day = 15\<rparr>, bill = Some 0,
                   end_date = Some \<lparr>year = 2020, month = 6, day = 15\<rparr>, commit = False\<rparr>"
       and call = "\<lparr>duration = 4000\<rparr>"
       and h = "empty_store(0 := \<lparr>billed_min = 0, free_min = 50, min_rate = 1 / 10,
                                  fixed_cost = 320, label = ''TERM''\<rparr>)"]
  by (simp add: lift_result_def TermContract_bill_call_def Let_def TERM_MINS_def
      add_free_minutes_def add_billed_minutes_def)

subsection \<open>The commitment flag of a term contract\<close>

lemma TermContract_do_commit:
  assumes "commit self" and "TermContract_do self p h = (out, self1, h1)"
  shows "commit self1"
proof (cases p)
  case (NewMonth m y b)
  with assms show ?thesis
    by (auto simp: TermContract_new_month_def Let_def split: option.splits if_splits)
next
  case (BillCall call)
  with assms show ?thesis
    by (auto simp: TermContract_bill_call_def Let_def split: option.splits if_splits)
next
  case CancelContract
  with assms show ?thesis
    by (auto simp: TermContract_cancel_contract_def Let_def split: option.splits if_splits)
qed

lemma TermContract_run_commit:
  "commit self \<Longrightarrow> run_all TermContract_do self ps h = (out, self1, h1) \<Longrightarrow> commit self1"
proof (induction ps arbitrary: self h)
  case Nil
  then show ?case by simp
next
  case (Cons p ps)
  obtain o2 s2 h2 where step: "TermContract_do self p h = (o2, s2, h2)"
    by (cases "TermContract_do self p h") auto
  have c2: "commit s2" using TermContract_do_commit [OF Cons.prems(1) step] .
  show ?case
  proof (cases o2)
    case (Inl e)
    with Cons.prems(2) step c2 show ?thesis by simp
  next
    case (Inr u)
    with Cons.prems(2) step have "run_all TermContract_do s2 ps h2 = (out, self1, h1)"
      by simp
    from Cons.IH [OF c2 this] show ?thesis .
  qed
qed

lemma TermContract_new_month_commit:
  assumes "start self = Some s" and "end_date self = Some e"
  shows "case TermContract_new_month self m y b h of
           (out, self1, h1) \<Rightarrow>
             out = Inr () \<and> commit self1 = (commit self \<or> (m = month e \<and> y = year e))"
  using assms by (auto simp: TermContract_new_month_def Let_def)

lemma TermContract_new_month_cancelled:
  assumes "start self = None \<or> end_date self = None"
  shows "case TermContract_new_month self m y b h of
           (out, self1, h1) \<Rightarrow> out = Inl AttributeError \<and> commit self1 = commit self"
  using assms by (auto simp: TermContract_new_month_def Let_def split: option.splits)

lemma TermContract_bill_call_commit:
  "case TermContract_bill_call self call h of (out, self1, h1) \<Rightarrow> commit self1 = commit self"
  by (simp add: TermContract_bill_call_def Let_def split: option.splits)

lemma TermContract_cancel_contract_commit:
  "case TermContract_cancel_contract self h of (out, self1, h1) \<Rightarrow> commit self1 = commit self"
  by (simp add: TermContract_cancel_contract_def Let_def split: option.splits)

lemma TermContract_do_not_commit:
  assumes "\<not> commit self" and "\<not> reaches_end self p"
    and "TermContract_do self p h = (out, self1, h1)"
  shows "\<not> commit self1 \<and> (end_date self1 = end_date self \<or> end_date self1 = None)"
proof (cases p)
  case (NewMonth m y b)
  with assms show ?thesis
    by (auto simp: TermContract_new_month_def Let_def split: option.splits if_splits)
next
  case (BillCall call)
  with assms show ?thesis
    by (auto simp: TermContract_bill_call_def Let_def split: option.splits if_splits)
next
  case CancelContract
  with assms show ?thesis
    by (auto simp: TermContract_cancel_contract_def Let_def split: option.splits if_splits)
qed

lemma reaches_end_mono:
  assumes "end_date self1 = end_date self \<or> end_date self1 = None"
    and "\<not> reaches_end self p"
  shows "\<not> reaches_end self1 p"
  using assms by (cases p) auto

lemma TermContract_run_not_commit:
  "\<not> commit self \<Longrightarrow> \<forall>p\<in>set ps. \<not> reaches_end self p \<Longrightarrow>
     run_all TermContract_do self ps h = (out, self1, h1) \<Longrightarrow> \<not> commit self1"
proof (induction ps arbitrary: self h)
  case Nil
  then show ?case by simp
next
  case (Cons p ps)
  obtain o2 s2 h2 where step: "TermContract_do self p h = (o2, s2, h2)"
    by (cases "TermContract_do self p h") auto
  have np: "\<not> reaches_end self p" using Cons.prems(2) by simp
  have s2: "\<not> commit s2" and e2: "end_date s2 = end_date self \<or> end_date s2 = None"
    using TermContract_do_not_commit [OF Cons.prems(1) np step] by simp_all
  show ?case
  proof (cases o2)
    case (Inl e)
    with Cons.prems(3) step s2 show ?thesis by simp
  next
    case (Inr u)
    with Cons.prems(3) step have run: "run_all TermContract_do s2 ps h2 = (out, self1, h1)"
      by simp
    have "\<forall>q\<in>set ps. \<not> reaches_end s2 q"
      using Cons.prems(2) reaches_end_mono [OF e2] by simp
    from Cons.IH [OF s2 this run] show ?thesis .
  qed
qed

text \<open>
  Claim C7. The commitment flag of a term contract is false after construction. A
  \<^verbatim>\<open>new_month\<close> on a contract that is not cancelled sets it exactly when the month and
  year are those of the end date, and leaves it as it was otherwise; on a cancelled
  contract \<^verbatim>\<open>new_month\<close> raises and leaves it as it was. \<^verbatim>\<open>bill_call\<close> and
  \<^verbatim>\<open>cancel_contract\<close> never change it, whether or not they raise. Hence once the flag is
  true it stays true through every operation and every sequence of operations, and it
  stays false through every sequence of operations none of which is a \<^verbatim>\<open>new_month\<close> for
  the month and year of the end date.
\<close>

theorem TermContract_commit_sticky:
  "\<not> commit (TermContract_init s e) \<and>
   (start self0 = Some s' \<and> end_date self0 = Some e' \<longrightarrow>
      (case TermContract_new_month self0 m y b h0 of
         (out, self1, h1) \<Rightarrow>
           out = Inr () \<and> commit self1 = (commit self0 \<or> (m = month e' \<and> y = year e')))) \<and>
   (start self0 = None \<or> end_date self0 = None \<longrightarrow>
      (case TermContract_new_month self0 m y b h0 of
         (out, self1, h1) \<Rightarrow> out = Inl AttributeError \<and> commit self1 = commit self0)) \<and>
   (case TermContract_bill_call self call h of
      (out, self1, h1) \<Rightarrow> commit self1 = commit self) \<and>
   (case TermContract_cancel_contract self h of
      (out, self1, h1) \<Rightarrow> commit self1 = commit self) \<and>
   (commit self \<longrightarrow>
      (case TermContract_do self p h of (out, self1, h1) \<Rightarrow> commit self1) \<and>
      (case run_all TermContract_do self ps h of (out, self1, h1) \<Rightarrow> commit self1)) \<and>
   (\<not> commit self \<and> (\<forall>q\<in>set ps. \<not> reaches_end self q) \<longrightarrow>
      (case run_all TermContract_do self ps h of (out, self1, h1) \<Rightarrow> \<not> commit self1))"
proof (intro conjI impI)
  show "\<not> commit (TermContract_init s e)" by (simp add: TermContract_init_def)
next
  assume "start self0 = Some s' \<and> end_date self0 = Some e'"
  then have "start self0 = Some s'" and "end_date self0 = Some e'" by simp_all
  then show "case TermContract_new_month self0 m y b h0 of
               (out, self1, h1) \<Rightarrow>
                 out = Inr () \<and> commit self1 = (commit self0 \<or> (m = month e' \<and> y = year e'))"
    by (rule TermContract_new_month_commit)
next
  assume "start self0 = None \<or> end_date self0 = None"
  then show "case TermContract_new_month self0 m y b h0 of
               (out, self1, h1) \<Rightarrow> out = Inl AttributeError \<and> commit self1 = commit self0"
    by (rule TermContract_new_month_cancelled)
next
  show "case TermContract_bill_call self call h of
          (out, self1, h1) \<Rightarrow> commit self1 = commit self"
    by (rule TermContract_bill_call_commit)
next
  show "case TermContract_cancel_contract self h of
          (out, self1, h1) \<Rightarrow> commit self1 = commit self"
    by (rule TermContract_cancel_contract_commit)
next
  assume "commit self"
  then show "case TermContract_do self p h of (out, self1, h1) \<Rightarrow> commit self1"
    by (auto dest: TermContract_do_commit)
next
  assume "commit self"
  then show "case run_all TermContract_do self ps h of (out, self1, h1) \<Rightarrow> commit self1"
    by (auto dest: TermContract_run_commit)
next
  assume "\<not> commit self \<and> (\<forall>q\<in>set ps. \<not> reaches_end self q)"
  then show "case run_all TermContract_do self ps h of (out, self1, h1) \<Rightarrow> \<not> commit self1"
    by (auto dest: TermContract_run_not_commit)
qed

text \<open>
  A term contract from January to February 2020. \<^verbatim>\<open>new_month\<close> for February sets the
  flag and \<^verbatim>\<open>new_month\<close> for March does not; a call and a cancellation leave it as it
  is; a committed contract stays committed through a call, a further month and the
  cancellation; a contract that is not committed stays so through January, a call and
  the cancellation.
\<close>

theorem TermContract_commit_sticky_witness:
  "\<not> commit (TermContract_init \<lparr>year = 2020, month = 1, day = 15\<rparr>
                                 \<lparr>year = 2020, month = 2, day = 15\<rparr>) \<and>
   start (TermContract_init \<lparr>year = 2020, month = 1, day = 15\<rparr>
                            \<lparr>year = 2020, month = 2, day = 15\<rparr>) =
     Some \<lparr>year = 2020, month = 1, day = 15\<rparr> \<and>
   end_date (TermContract_init \<lparr>year = 2020, month = 1, day = 15\<rparr>
                               \<lparr>year = 2020, month = 2, day = 15\<rparr>) =
     Some \<lparr>year = 2020, month = 2, day = 15\<rparr> \<and>
   (case TermContract_new_month
           (TermContract_init \<lparr>year = 2020, month = 1, day = 15\<rparr>
                              \<lparr>year = 2020, month = 2, day = 15\<rparr>) 2 2020 0 empty_store of
      (out, self1, h1) \<Rightarrow> out = Inr () \<and> commit self1) \<and>
   (case TermContract_new_month
           (TermContract_init \<lparr>year = 2020, month = 1, day = 15\<rparr>
                              \<lparr>year = 2020, month = 2, day = 15\<rparr>) 3 2020 0 empty_store of
      (out, self1, h1) \<Rightarrow> out = Inr () \<and> \<not> commit self1) \<and>
   end_date \<lparr>start = None, bill = Some 0, end_date = None, commit = False\<rparr> = None \<and>
   (case TermContract_new_month
           \<lparr>start = None, bill = Some 0, end_date = None, commit = False\<rparr>
           2 2020 1 empty_store of
      (out, self1, h1) \<Rightarrow> out = Inl AttributeError \<and> \<not> commit self1) \<and>
   (case TermContract_bill_call
           \<lparr>start = Some \<lparr>year = 2020, month = 1, day = 15\<rparr>, bill = Some 0,
            end_date = Some \<lparr>year = 2020, month = 2, day = 15\<rparr>, commit = False\<rparr>
           \<lparr>duration = 125\<rparr> empty_store of
      (out, self1, h1) \<Rightarrow> \<not> commit self1) \<and>
   (case TermContract_cancel_contract
           \<lparr>start = Some \<lparr>year = 2020, month = 1, day = 15\<rparr>, bill = Some 0,
            end_date = Some \<lparr>year = 2020, month = 2, day = 15\<rparr>, commit = False\<rparr>
           empty_store of
      (out, self1, h1) \<Rightarrow> \<not> commit self1) \<and>
   commit \<lparr>start = Some \<lparr>year = 2020, month = 1, day = 15\<rparr>, bill = Some 0,
           end_date = Some \<lparr>year = 2020, month = 2, day = 15\<rparr>, commit = True\<rparr> \<and>
   (case TermContract_do
           \<lparr>start = Some \<lparr>year = 2020, month = 1, day = 15\<rparr>, bill = Some 0,
            end_date = Some \<lparr>year = 2020, month = 2, day = 15\<rparr>, commit = True\<rparr>
           (NewMonth 3 2020 1) empty_store of
      (out, self1, h1) \<Rightarrow> commit self1) \<and>
   (case run_all TermContract_do
           \<lparr>start = Some \<lparr>year = 2020, month = 1, day = 15\<rparr>, bill = Some 0,
            end_date = Some \<lparr>year = 2020, month = 2, day = 15\<rparr>, commit = True\<rparr>
           [BillCall \<lparr>duration = 125\<rparr>, NewMonth 3 2020 1, CancelContract] empty_store of
      (out, self1, h1) \<Rightarrow> commit self1) \<and>
   \<not> reaches_end
        (TermContract_init \<lparr>year = 2020, month = 1, day = 15\<rparr>
                           \<lparr>year = 2020, month = 2, day = 15\<rparr>) (NewMonth 1 2020 0) \<and>
   \<not> reaches_end
        (TermContract_init \<lparr>year = 2020, month = 1, day = 15\<rparr>
                           \<lparr>year = 2020, month = 2, day = 15\<rparr>) (BillCall \<lparr>duration = 125\<rparr>) \<and>
   \<not> reaches_end
        (TermContract_init \<lparr>year = 2020, month = 1, day = 15\<rparr>
                           \<lparr>year = 2020, month = 2, day = 15\<rparr>) CancelContract \<and>
   (case run_all TermContract_do
           (TermContract_init \<lparr>year = 2020, month = 1, day = 15\<rparr>
                              \<lparr>year = 2020, month = 2, day = 15\<rparr>)
           [NewMonth 1 2020 0, BillCall \<lparr>duration = 125\<rparr>, CancelContract] empty_store of
      (out, self1, h1) \<Rightarrow> \<not> commit self1)"
  using TermContract_commit_sticky
    [where s = "\<lparr>year = 2020, month = 1, day = 15\<rparr>"
       and e = "\<lparr>year = 2020, month = 2, day = 15\<rparr>"
       and ?self0.0 = "TermContract_init \<lparr>year = 2020, month = 1, day = 15\<rparr>
                                     \<lparr>year = 2020, month = 2, day = 15\<rparr>"
       and s' = "\<lparr>year = 2020, month = 1, day = 15\<rparr>"
       and e' = "\<lparr>year = 2020, month = 2, day = 15\<rparr>"
       and m = 2 and y = 2020 and b = 0 and ?h0.0 = empty_store
       and self = "\<lparr>start = Some \<lparr>year = 2020, month = 1, day = 15\<rparr>, bill = Some 0,
                    end_date = Some \<lparr>year = 2020, month = 2, day = 15\<rparr>, commit = True\<rparr>"
       and p = "NewMonth 3 2020 1" and h = empty_store
       and ps = "[BillCall \<lparr>duration = 125\<rparr>, NewMonth 3 2020 1, CancelContract]"]
    TermContract_commit_sticky
    [where s = "\<lparr>year = 2020, month = 1, day = 15\<rparr>"
       and e = "\<lparr>year = 2020, month = 2, day = 15\<rparr>"
       and ?self0.0 = "TermContract_init \<lparr>year = 2020, month = 1, day = 15\<rparr>
                                     \<lparr>year = 2020, month = 2, day = 15\<rparr>"
       and s' = "\<lparr>year = 2020, month = 1, day = 15\<rparr>"
       and e' = "\<lparr>year = 2020, month = 2, day = 15\<rparr>"
       and m = 3 and y = 2020 and b = 0 and ?h0.0 = empty_store
       and self = "\<lparr>start = Some \<lparr>year = 2020, month = 1, day = 15\<rparr>, bill = Some 0,
                    end_date = Some \<lparr>year = 2020, month = 2, day = 15\<rparr>, commit = False\<rparr>"
       and call = "\<lparr>duration = 125\<rparr>" and h = empty_store]
    TermContract_commit_sticky
    [where ?self0.0 = "\<lparr>start = None, bill = Some 0, end_date = None, commit = False\<rparr>"
       and m = 2 and y = 2020 and b = 1 and ?h0.0 = empty_store
       and self = "TermContract_init \<lparr>year = 2020, month = 1, day = 15\<rparr>
                                     \<lparr>year = 2020, month = 2, day = 15\<rparr>"
       and h = empty_store
       and ps = "[NewMonth 1 2020 0, BillCall \<lparr>duration = 125\<rparr>, CancelContract]"]
  by (simp add: TermContract_init_def)

subsection \<open>The amount owed when a line is closed\<close>

text \<open>
  The months of a line keep its current bill sound: a new bill gets at least the monthly
  fee as fixed cost and a rate that is not negative, and calls of non-negative duration
  only add billed minutes.
\<close>

lemma sound_bill_no_bill: "current_bill c = None \<Longrightarrow> sound_bill c h"
  by (cases c) simp_all

lemma new_month_sound:
  assumes "new_month c m y n (h(n := Bill_init)) = (Inr u, c1, h1)"
  shows "sound_bill c1 h1"
proof (cases c)
  case (OfMTM a)
  with assms show ?thesis
    by (auto simp: lift_result_def MTMContract_new_month_def Let_def Bill_init_def
        add_fixed_cost_def set_rates_def MTM_MONTHLY_FEE_def MTM_MINS_COST_def)
next
  case (OfTerm a)
  with assms show ?thesis
    by (auto simp: lift_result_def TermContract_new_month_def Let_def Bill_init_def
        add_fixed_cost_def set_rates_def TERM_MONTHLY_FEE_def TERM_DEPOSIT_def
        TERM_MINS_COST_def split: option.splits if_splits)
next
  case (OfPrepaid a)
  with assms show ?thesis
    by (auto simp: lift_result_def PrepaidContract_new_month_def Let_def)
qed

lemma bill_call_sound:
  assumes "sound_bill c h" and "0 \<le> duration x" and "bill_call c x h = (out, c1, h1)"
  shows "sound_bill c1 h1"
proof (cases c)
  case (OfMTM a)
  with assms ceiling_div_60_nonneg [OF assms(2)] show ?thesis
    by (auto simp: lift_result_def Contract_bill_call_def add_billed_minutes_def
        split: option.splits)
next
  case (OfTerm a)
  with assms ceiling_div_60_nonneg [OF assms(2)] show ?thesis
    by (auto simp: lift_result_def TermContract_bill_call_def Let_def add_billed_minutes_def
        add_free_minutes_def split: option.splits if_splits)
next
  case (OfPrepaid a)
  with assms show ?thesis
    by (auto simp: lift_result_def Contract_bill_call_def split: option.splits)
qed

lemma run_all_bill_call_sound:
  "sound_bill c h \<Longrightarrow> \<forall>x\<in>set cs. 0 \<le> duration x \<Longrightarrow>
     run_all bill_call c cs h = (out, c1, h1) \<Longrightarrow> sound_bill c1 h1"
proof (induction cs arbitrary: c h)
  case Nil
  then show ?case by simp
next
  case (Cons x xs)
  obtain o2 c2 h2 where step: "bill_call c x h = (o2, c2, h2)"
    by (cases "bill_call c x h") auto
  have s2: "sound_bill c2 h2"
    using bill_call_sound [OF Cons.prems(1) _ step] Cons.prems(2) by simp
  show ?case
  proof (cases o2)
    case (Inl e)
    with Cons.prems(3) step s2 show ?thesis by simp
  next
    case (Inr u)
    with Cons.prems(3) step have "run_all bill_call c2 xs h2 = (out, c1, h1)" by simp
    moreover have "\<forall>x\<in>set xs. 0 \<le> duration x" using Cons.prems(2) by simp
    ultimately show ?thesis using Cons.IH [OF s2] by blast
  qed
qed

lemma drive_sound:
  "sound_bill c0 h0 \<Longrightarrow> \<forall>(m, y, calls)\<in>set months. \<forall>x\<in>set calls. 0 \<le> duration x \<Longrightarrow>
     drive c0 h0 n0 months = Some (c, h, n) \<Longrightarrow> sound_bill c h"
proof (induction months arbitrary: c0 h0 n0)
  case Nil
  then show ?case by simp
next
  case (Cons cyc rest)
  obtain m y calls where cyc: "cyc = (m, y, calls)" by (cases cyc) auto
  obtain o1 c1 h1 where nm: "new_month c0 m y n0 (h0(n0 := Bill_init)) = (o1, c1, h1)"
    by (cases "new_month c0 m y n0 (h0(n0 := Bill_init))") auto
  obtain o2 c2 h2 where ra: "run_all bill_call c1 calls h1 = (o2, c2, h2)"
    by (cases "run_all bill_call c1 calls h1") auto
  from Cons.prems(3) cyc nm obtain u1 where o1: "o1 = Inr u1"
    by (cases o1) auto
  from Cons.prems(3) cyc nm ra o1 obtain u2 where o2: "o2 = Inr u2"
    by (cases o2) auto
  have rest: "drive c2 h2 (Suc n0) rest = Some (c, h, n)"
    using Cons.prems(3) cyc nm ra o1 o2 by simp
  have s1: "sound_bill c1 h1" using new_month_sound nm o1 by blast
  have calls: "\<forall>x\<in>set calls. 0 \<le> duration x" using Cons.prems(2) cyc by auto
  have s2: "sound_bill c2 h2" using run_all_bill_call_sound [OF s1 calls ra] .
  have "\<forall>(m, y, calls)\<in>set rest. \<forall>x\<in>set calls. 0 \<le> duration x"
    using Cons.prems(2) by simp
  from Cons.IH [OF s2 this rest] show ?case .
qed

lemma get_cost_sound:
  assumes "20 \<le> fixed_cost b" and "0 \<le> min_rate b" and "0 \<le> billed_min b"
  shows "20 \<le> get_cost b"
proof -
  have "0 \<le> rat_of_int (billed_min b) * min_rate b" using assms by simp
  with assms(1) show ?thesis by (simp add: get_cost_def)
qed

lemma cancel_contract_sound:
  assumes "sound_bill c h" and "current_bill c = Some r"
  shows "\<exists>amount c'. cancel_contract c h = (Inr amount, c', h) \<and>
           (if committed c then - 280 \<le> amount else 0 \<le> amount)"
proof (cases c)
  case (OfMTM a)
  with assms have "20 \<le> get_cost (h r)" by (intro get_cost_sound) simp_all
  with assms OfMTM show ?thesis
    by (simp add: lift_result_def Contract_cancel_contract_def Let_def)
next
  case (OfTerm a)
  with assms have "20 \<le> get_cost (h r)" by (intro get_cost_sound) simp_all
  with assms OfTerm show ?thesis
    by (simp add: lift_result_def TermContract_cancel_contract_def Let_def TERM_DEPOSIT_def)
next
  case (OfPrepaid a)
  with assms show ?thesis
    by (simp add: lift_result_def PrepaidContract_cancel_contract_def Let_def)
qed

text \<open>
  Claim C8, as the code has it. After any months of calls with non-negative durations,
  started on a contract that has no bill yet, \<^verbatim>\<open>cancel_contract\<close> on a contract with a
  current bill returns an amount that is not negative for a month-to-month contract, for
  a prepaid contract and for a term contract whose commitment flag is false. For a term
  contract whose commitment flag is true the deposit is handed back: the amount is the
  cost of the bill minus 300, which is at least -280 and can be negative.
\<close>

theorem cancel_contract_amount_bounds:
  assumes "current_bill c0 = None"
    and "\<forall>(m, y, calls)\<in>set months. \<forall>x\<in>set calls. 0 \<le> duration x"
    and "drive c0 h0 n0 months = Some (c, h, n)"
    and "current_bill c = Some r"
  shows "\<exists>amount c'. cancel_contract c h = (Inr amount, c', h) \<and>
           (if committed c then - 280 \<le> amount else 0 \<le> amount)"
  using cancel_contract_sound [OF drive_sound [OF sound_bill_no_bill [OF assms(1)] assms(2,3)] assms(4)] .

theorem cancel_contract_amount_bounds_witness:
  "current_bill (OfMTM (Contract_init \<lparr>year = 2020, month = 1, day = 15\<rparr>)) = None \<and>
   0 \<le> duration \<lparr>duration = 125\<rparr> \<and>
   drive (OfMTM (Contract_init \<lparr>year = 2020, month = 1, day = 15\<rparr>)) empty_store 0
         [(1, 2020, [\<lparr>duration = 125\<rparr>])] =
     Some (OfMTM \<lparr>start = Some \<lparr>year = 2020, month = 1, day = 15\<rparr>, bill = Some 0\<rparr>,
           empty_store(0 := \<lparr>billed_min = 3, free_min = 0, min_rate = 5 / 100,
                              fixed_cost = 50, label = ''MTM''\<rparr>),
           1) \<and>
   current_bill (OfMTM \<lparr>start = Some \<lparr>year = 2020, month = 1, day = 15\<rparr>, bill = Some 0\<rparr>) =
     Some 0 \<and>
   cancel_contract
     (OfMTM \<lparr>start = Some \<lparr>year = 2020, month = 1, day = 15\<rparr>, bill = Some 0\<rparr>)
     (empty_store(0 := \<lparr>billed_min = 3, free_min = 0, min_rate = 5 / 100,
                        fixed_cost = 50, label = ''MTM''\<rparr>)) =
     (Inr (5015 / 100), OfMTM \<lparr>start = None, bill = Some 0\<rparr>,
      empty_store(0 := \<lparr>billed_min = 3, free_min = 0, min_rate = 5 / 100,
                         fixed_cost = 50, label = ''MTM''\<rparr>)) \<and>
   \<not> committed (OfMTM \<lparr>start = Some \<lparr>year = 2020, month = 1, day = 15\<rparr>, bill = Some 0\<rparr>) \<and>
   (0 :: rat) \<le> 5015 / 100"
  using cancel_contract_amount_bounds
    [where ?c0.0 = "OfMTM (Contract_init \<lparr>year = 2020, month = 1, day = 15\<rparr>)"
       and months = "[(1, 2020, [\<lparr>duration = 125\<rparr>])]"
       and ?h0.0 = empty_store and ?n0.0 = 0
       and c = "OfMTM \<lparr>start = Some \<lparr>year = 2020, month = 1, day = 15\<rparr>, bill = Some 0\<rparr>"
       and h = "empty_store(0 := \<lparr>billed_min = 3, free_min = 0, min_rate = 5 / 100,
                                  fixed_cost = 50, label = ''MTM''\<rparr>)"
       and n = 1 and r = 0]
  by (simp add: Contract_init_def lift_result_def MTMContract_new_month_def Let_def
      Contract_bill_call_def Contract_cancel_contract_def Bill_init_def add_fixed_cost_def
      set_rates_def add_billed_minutes_def get_cost_def MTM_MONTHLY_FEE_def MTM_MINS_COST_def
      empty_store_def ceiling_rat_numeral)

text \<open>
  A term contract from January to February 2020, run through both months without calls
  and then cancelled: the bill of February costs 20, the commitment is fulfilled, and
  the amount returned is -280.
\<close>

theorem cancel_contract_nonneg_counterexample:
  "drive (OfTerm (TermContract_init \<lparr>year = 2020, month = 1, day = 15\<rparr>
                                     \<lparr>year = 2020, month = 2, day = 15\<rparr>))
         empty_store 0 [(1, 2020, []), (2, 2020, [])] =
     Some (OfTerm \<lparr>start = Some \<lparr>year = 2020, month = 1, day = 15\<rparr>, bill = Some 1,
                   end_date = Some \<lparr>year = 2020, month = 2, day = 15\<rparr>, commit = True\<rparr>,
           empty_store(0 := \<lparr>billed_min = 0, free_min = 0, min_rate = 1 / 10,
                              fixed_cost = 320, label = ''TERM''\<rparr>,
                       1 := \<lparr>billed_min = 0, free_min = 0, min_rate = 1 / 10,
                              fixed_cost = 20, label = ''TERM''\<rparr>),
           2) \<and>
   cancel_contract
     (OfTerm \<lparr>start = Some \<lparr>year = 2020, month = 1, day = 15\<rparr>, bill = Some 1,
              end_date = Some \<lparr>year = 2020, month = 2, day = 15\<rparr>, commit = True\<rparr>)
     (empty_store(0 := \<lparr>billed_min = 0, free_min = 0, min_rate = 1 / 10,
                        fixed_cost = 320, label = ''TERM''\<rparr>,
                  1 := \<lparr>billed_min = 0, free_min = 0, min_rate = 1 / 10,
                         fixed_cost = 20, label = ''TERM''\<rparr>)) =
     (Inr (- 280),
      OfTerm \<lparr>start = None, bill = Some 1, end_date = None, commit = True\<rparr>,
      empty_store(0 := \<lparr>billed_min = 0, free_min = 0, min_rate = 1 / 10,
                         fixed_cost = 320, label = ''TERM''\<rparr>,
                  1 := \<lparr>billed_min = 0, free_min = 0, min_rate = 1 / 10,
                         fixed_cost = 20, label = ''TERM''\<rparr>)) \<and>
   (- 280 :: rat) < 0"
  by (simp add: TermContract_init_def lift_result_def TermContract_new_month_def Let_def
      TermContract_cancel_contract_def Bill_init_def add_fixed_cost_def set_rates_def
      get_cost_def TERM_DEPOSIT_def TERM_MONTHLY_FEE_def TERM_MINS_COST_def empty_store_def)

end
